theory Spec2Isabelle
  imports Main
begin

section \<open>Python string primitives used by the crawler\<close>

text \<open>
  Python strings are modelled as \<open>string\<close> (lists of \<open>char\<close>); a \<open>char\<close> stands for a
  code point below 256. Every function below is the list version of the \<open>str\<close> method
  of the same name, for the arguments the crawler passes.
\<close>

datatype error =
    ValueError
  | IndexError
  | UnicodeDecodeError
  | RequestException string

definition startswith :: "string \<Rightarrow> string \<Rightarrow> bool" where
  "startswith s p = (take (length p) s = p)"

text \<open>\<open>sub in s\<close> for strings: \<open>sub\<close> occurs in \<open>s\<close> as a contiguous substring.\<close>

fun str_contains :: "string \<Rightarrow> string \<Rightarrow> bool" where
  "str_contains sub [] = (sub = [])"
| "str_contains sub (c # cs) = (startswith (c # cs) sub \<or> str_contains sub cs)"

text \<open>\<open>s.replace(c, '')\<close> for a single character \<open>c\<close>.\<close>

definition remove_char :: "char \<Rightarrow> string \<Rightarrow> string" where
  "remove_char c s = filter (\<lambda>x. x \<noteq> c) s"

text \<open>\<open>s.replace(a + b, r)\<close> for a pattern of two characters, scanning from the left.\<close>

fun replace2 :: "char \<Rightarrow> char \<Rightarrow> string \<Rightarrow> string \<Rightarrow> string" where
  "replace2 a b r (x # y # s) =
     (if x = a \<and> y = b then r @ replace2 a b r s else x # replace2 a b r (y # s))"
| "replace2 a b r s = s"

text \<open>\<open>s.lstrip(chars)\<close>: drops leading characters that belong to the set \<open>chars\<close>.\<close>

definition lstrip :: "string \<Rightarrow> string \<Rightarrow> string" where
  "lstrip chars s = dropWhile (\<lambda>c. c \<in> set chars) s"

text \<open>\<open>s.split(sep)\<close> for a single character separator; \<open>''.split('/')\<close> is \<open>['']\<close>.\<close>

fun split_on :: "char \<Rightarrow> string \<Rightarrow> string list" where
  "split_on sep [] = [[]]"
| "split_on sep (c # cs) =
     (if c = sep then [] # split_on sep cs
      else (case split_on sep cs of
              [] \<Rightarrow> [[c]]
            | w # ws \<Rightarrow> (c # w) # ws))"

text \<open>\<open>sep.join(xs)\<close> for a single character separator.\<close>

fun join :: "char \<Rightarrow> string list \<Rightarrow> string" where
  "join sep [] = []"
| "join sep [x] = x"
| "join sep (x # y # xs) = x @ sep # join sep (y # xs)"

text \<open>\<open>s.split(c, 1)\<close> when \<open>c\<close> occurs in \<open>s\<close>: the text before and after the first \<open>c\<close>.\<close>

definition split_first :: "char \<Rightarrow> string \<Rightarrow> string \<times> string" where
  "split_first c s = (takeWhile (\<lambda>x. x \<noteq> c) s, drop 1 (dropWhile (\<lambda>x. x \<noteq> c) s))"

definition ascii_lowercase :: string where
  "ascii_lowercase = ''abcdefghijklmnopqrstuvwxyz''"

definition ascii_uppercase :: string where
  "ascii_uppercase = ''ABCDEFGHIJKLMNOPQRSTUVWXYZ''"

definition digit_chars :: string where
  "digit_chars = ''0123456789''"

text \<open>\<open>c.isascii() and c.isalpha()\<close>\<close>

definition is_ascii_alpha :: "char \<Rightarrow> bool" where
  "is_ascii_alpha c = (c \<in> set (ascii_lowercase @ ascii_uppercase))"

text \<open>\<open>s.lower()\<close>; on the characters modelled here only A-Z are mapped by the scheme
  test that precedes every use (the argument consists of \<open>scheme_chars\<close>).\<close>

definition lower_char :: "char \<Rightarrow> char" where
  "lower_char c = (case map_of (zip ascii_uppercase ascii_lowercase) c of
                     None \<Rightarrow> c | Some l \<Rightarrow> l)"

definition lower :: "string \<Rightarrow> string" where
  "lower s = map lower_char s"

section \<open>urllib.parse: urlparse and geturl\<close>

text \<open>
  The crawler parses every URL with the standard library's \<open>urlparse\<close> and prints the
  result with \<open>geturl\<close>. Both are modelled after \<open>urllib/parse.py\<close> of CPython 3.11:
  \<open>urlsplit\<close>, \<open>_splitnetloc\<close>, \<open>_splitparams\<close>, \<open>urlparse\<close>, \<open>urlunsplit\<close>,
  \<open>urlunparse\<close>. Two library routines are not embedded and are taken as parameters:
  the \<open>unicode_escape\<close> codec (\<open>None\<close> when it raises) and \<open>_check_bracketed_host\<close>
  (the validation of an IPv6 or IPvFuture literal between brackets, \<open>False\<close> when it
  raises). \<open>_checknetloc\<close> returns at once for ASCII hosts and never raises for code
  points below 256, so it is left out; a URL with a character beyond code point 255 is
  outside the model.

  The releases of the library differ in one test of \<open>urlunsplit\<close>, when the authority is
  empty and the path starts with two slashes. CPython 3.11.10 writes the \<open>//\<close> of the
  authority when
  \<^verbatim>\<open>netloc or (scheme and scheme in uses_netloc) or url[:2] == '//'\<close>,
  CPython 3.11.2 and 3.12.3 when
  \<^verbatim>\<open>netloc or (scheme and scheme in uses_netloc and url[:2] != '//')\<close>.
  The third parameter, \<open>double_slash_kept\<close>, says which of the two tests the library
  makes (\<open>True\<close> for the first), so that a theorem about every library holds for both.
\<close>

record pylib =
  unicode_escape :: "string \<Rightarrow> string option"
  check_bracketed_host :: "string \<Rightarrow> bool"
  double_slash_kept :: bool

record parse_result =
  scheme :: string
  netloc :: string
  path :: string
  params :: string
  query :: string
  fragment :: string

definition uses_netloc :: "string list" where
  "uses_netloc = ['''', ''ftp'', ''http'', ''gopher'', ''nntp'', ''telnet'',
     ''imap'', ''wais'', ''file'', ''mms'', ''https'', ''shttp'',
     ''snews'', ''prospero'', ''rtsp'', ''rtsps'', ''rtspu'', ''rsync'',
     ''svn'', ''svn+ssh'', ''sftp'', ''nfs'', ''git'', ''git+ssh'',
     ''ws'', ''wss'']"

definition uses_params :: "string list" where
  "uses_params = ['''', ''ftp'', ''hdl'', ''prospero'', ''http'', ''imap'',
     ''https'', ''shttp'', ''rtsp'', ''rtsps'', ''rtspu'', ''sip'',
     ''sips'', ''mms'', ''sftp'', ''tel'']"

definition scheme_chars :: string where
  "scheme_chars = ascii_lowercase @ ascii_uppercase @ digit_chars @ ''+-.''"

text \<open>The characters 0x00..0x20 that \<open>urlsplit\<close> strips from the left of the URL.\<close>

definition is_c0_or_space :: "char \<Rightarrow> bool" where
  "is_c0_or_space c = ((of_char c :: nat) \<le> 32)"

text \<open>Tab, carriage return and line feed, which \<open>urlsplit\<close> removes everywhere.\<close>

definition is_unsafe_byte :: "char \<Rightarrow> bool" where
  "is_unsafe_byte c = (c = CHR 0x09 \<or> c = CHR 0x0D \<or> c = CHR 0x0A)"

text \<open>\<open>_splitnetloc(url, 2)\<close>: the authority runs from index 2 to the first of
  \<open>/\<close>, \<open>?\<close>, \<open>#\<close>.\<close>

definition is_netloc_delim :: "char \<Rightarrow> bool" where
  "is_netloc_delim c = (c = CHR ''/'' \<or> c = CHR ''?'' \<or> c = CHR ''#'')"

definition splitnetloc :: "string \<Rightarrow> string \<times> string" where
  "splitnetloc url =
     (takeWhile (\<lambda>c. \<not> is_netloc_delim c) (drop 2 url),
      dropWhile (\<lambda>c. \<not> is_netloc_delim c) (drop 2 url))"

text \<open>The scheme test of \<open>urlsplit\<close>: \<open>i = url.find(':')\<close>, \<open>i > 0\<close>, the first
  character an ASCII letter and \<open>url[:i]\<close> made of \<open>scheme_chars\<close>.\<close>

definition split_scheme :: "string \<Rightarrow> string \<times> string" where
  "split_scheme url =
     (let pre = takeWhile (\<lambda>c. c \<noteq> CHR '':'') url in
      if CHR '':'' \<in> set url \<and> pre \<noteq> [] \<and> is_ascii_alpha (hd url)
         \<and> list_all (\<lambda>c. c \<in> set scheme_chars) pre
      then (lower pre, drop (Suc (length pre)) url)
      else ([], url))"

text \<open>\<open>netloc.partition('[')[2].partition(']')[0]\<close>\<close>

definition bracketed_host :: "string \<Rightarrow> string" where
  "bracketed_host nl =
     takeWhile (\<lambda>c. c \<noteq> CHR '']'') (drop 1 (dropWhile (\<lambda>c. c \<noteq> CHR ''['') nl))"

definition urlsplit :: "pylib \<Rightarrow> string \<Rightarrow> error + parse_result" where
  "urlsplit lib url0 =
     (let url1 = dropWhile is_c0_or_space url0;
          url2 = filter (\<lambda>c. \<not> is_unsafe_byte c) url1;
          (sch, url3) = split_scheme url2;
          (nl, url4) = (if take 2 url3 = ''//'' then splitnetloc url3 else ([], url3));
          (url5, frag) = (if CHR ''#'' \<in> set url4 then split_first (CHR ''#'') url4
                          else (url4, []));
          (url6, qry) = (if CHR ''?'' \<in> set url5 then split_first (CHR ''?'') url5
                         else (url5, []))
      in if take 2 url3 = ''//''
            \<and> ((CHR ''['' \<in> set nl \<and> CHR '']'' \<notin> set nl)
               \<or> (CHR '']'' \<in> set nl \<and> CHR ''['' \<notin> set nl))
         then Inl ValueError
         else if take 2 url3 = ''//'' \<and> CHR ''['' \<in> set nl \<and> CHR '']'' \<in> set nl
                 \<and> \<not> check_bracketed_host lib (bracketed_host nl)
         then Inl ValueError
         else Inr \<lparr>scheme = sch, netloc = nl, path = url6, params = [],
                   query = qry, fragment = frag\<rparr>)"

text \<open>\<open>_splitparams\<close>: the parameters start at the first \<open>;\<close> of the last path
  segment.\<close>

definition splitparams :: "string \<Rightarrow> string \<times> string" where
  "splitparams url =
     (if CHR ''/'' \<in> set url
      then (let seg = last (split_on (CHR ''/'') url);
                front = take (length url - length seg) url
            in if CHR '';'' \<in> set seg
               then (front @ fst (split_first (CHR '';'') seg),
                     snd (split_first (CHR '';'') seg))
               else (url, []))
      else split_first (CHR '';'') url)"

definition urlparse :: "pylib \<Rightarrow> string \<Rightarrow> error + parse_result" where
  "urlparse lib url =
     (case urlsplit lib url of
        Inl e \<Rightarrow> Inl e
      | Inr r \<Rightarrow>
          if scheme r \<in> set uses_params \<and> CHR '';'' \<in> set (path r)
          then Inr (r\<lparr>path := fst (splitparams (path r)),
                      params := snd (splitparams (path r))\<rparr>)
          else Inr r)"

definition urlunsplit ::
    "pylib \<Rightarrow> string \<Rightarrow> string \<Rightarrow> string \<Rightarrow> string \<Rightarrow> string \<Rightarrow> string" where
  "urlunsplit lib sch nl url qry frag =
     (let url1 = (if nl \<noteq> []
                     \<or> (if double_slash_kept lib
                         then (sch \<noteq> [] \<and> sch \<in> set uses_netloc) \<or> take 2 url = ''//''
                         else sch \<noteq> [] \<and> sch \<in> set uses_netloc \<and> take 2 url \<noteq> ''//'')
                  then ''//'' @ nl @ (if url \<noteq> [] \<and> take 1 url \<noteq> ''/'' then ''/'' @ url else url)
                  else url);
          url2 = (if sch \<noteq> [] then sch @ '':'' @ url1 else url1);
          url3 = (if qry \<noteq> [] then url2 @ ''?'' @ qry else url2)
      in if frag \<noteq> [] then url3 @ ''#'' @ frag else url3)"

text \<open>\<open>ParseResult.geturl()\<close>, that is \<open>urlunparse(self)\<close>.\<close>

definition geturl :: "pylib \<Rightarrow> parse_result \<Rightarrow> string" where
  "geturl lib r =
     urlunsplit lib (scheme r) (netloc r)
       (if params r \<noteq> [] then path r @ '';'' @ params r else path r)
       (query r) (fragment r)"

section \<open>The URL resolver: \<open>WebCrawler.parse_url\<close>\<close>

text \<open>
  \<open>get_parsed_object_from_url\<close> memoises \<open>urlparse\<close> in a dictionary keyed by the URL.
  The parsed objects are immutable tuples (\<open>_replace\<close> builds a new one) and an exception
  of \<open>urlparse\<close> stores nothing, so the memo table never changes a result; the model
  returns the value of \<open>urlparse\<close>.
\<close>

definition get_parsed_object_from_url :: "pylib \<Rightarrow> string \<Rightarrow> error + parse_result" where
  "get_parsed_object_from_url lib url = urlparse lib url"

text \<open>
  The nested \<open>_make_url_by_referer\<close>. In the last branch \<open>path_list.pop()\<close> always
  succeeds (\<open>split\<close> returns at least one segment), and the assignment to
  \<open>path_list[-1]\<close> raises \<open>IndexError\<close> when the list has become empty.
\<close>

definition make_url_by_referer ::
    "pylib \<Rightarrow> parse_result \<Rightarrow> string \<Rightarrow> error + parse_result" where
  "make_url_by_referer lib origin_parsed_obj referer_url =
     (if scheme origin_parsed_obj \<noteq> [] then Inr origin_parsed_obj
      else if netloc origin_parsed_obj \<noteq> [] then Inr (origin_parsed_obj\<lparr>scheme := ''http''\<rparr>)
      else if startswith (path origin_parsed_obj) ''/'' then
        (case get_parsed_object_from_url lib referer_url of
           Inl e \<Rightarrow> Inl e
         | Inr referer \<Rightarrow>
             Inr (origin_parsed_obj\<lparr>scheme := scheme referer, netloc := netloc referer\<rparr>))
      else
        (case get_parsed_object_from_url lib referer_url of
           Inl e \<Rightarrow> Inl e
         | Inr referer \<Rightarrow>
             (let path_list = split_on (CHR ''/'') (path referer) in
              if startswith (path origin_parsed_obj) ''../'' then
                (let popped = butlast path_list in
                 if popped = [] then Inl IndexError
                 else
                   Inr (origin_parsed_obj
                     \<lparr>path := join (CHR ''/'')
                        (popped[length popped - 1 := lstrip ''../'' (path origin_parsed_obj)]),
                      scheme := scheme referer, netloc := netloc referer\<rparr>))
              else
                Inr (origin_parsed_obj
                  \<lparr>path := join (CHR ''/'')
                     (path_list[length path_list - 1 := path origin_parsed_obj]),
                   scheme := scheme referer, netloc := netloc referer\<rparr>))))"

text \<open>
  \<open>re.sub(r"@!.*$", "", url)\<close>. The dot matches every character but a line feed and
  \<open>$\<close> matches at the end of the string or before a line feed that ends it. So the
  pattern matches at an occurrence of \<open>@!\<close> exactly when the text after it has no line
  feed, or a single one as its last character (which is kept); the leftmost such
  occurrence is cut.
\<close>

definition dollar_tail :: "string \<Rightarrow> string option" where
  "dollar_tail t =
     (if CHR 0x0A \<notin> set t then Some []
      else if t \<noteq> [] \<and> last t = CHR 0x0A \<and> CHR 0x0A \<notin> set (butlast t) then Some [CHR 0x0A]
      else None)"

fun re_sub_size :: "string \<Rightarrow> string" where
  "re_sub_size [] = []"
| "re_sub_size (c # cs) =
     (if c = CHR ''@'' \<and> take 1 cs = ''!'' then
        (case dollar_tail (drop 1 cs) of
           Some k \<Rightarrow> k
         | None \<Rightarrow> c # re_sub_size cs)
      else c # re_sub_size cs)"

text \<open>The two-character prefix backslash, double quote of a double-escaped link.\<close>

definition escaped_quote :: string where
  "escaped_quote = [CHR 0x5C, CHR 0x22]"

definition parse_url :: "pylib \<Rightarrow> string \<Rightarrow> string \<Rightarrow> error + string option" where
  "parse_url lib url0 referer_url =
     (let url = remove_char (CHR '' '') url0 in
      if url = [] then Inr None
      else if startswith url ''#'' then Inr None
      else if startswith url ''javascript'' then Inr None
      else if startswith url ''mailto'' then Inr None
      else if startswith url ''tel:'' then Inr None
      else if startswith url escaped_quote then
        (case unicode_escape lib url of
           None \<Rightarrow> Inl UnicodeDecodeError
         | Some u \<Rightarrow> Inr (Some (remove_char (CHR 0x22) (replace2 (CHR 0x5C) (CHR ''/'') ''/'' u))))
      else if startswith url ''data:'' then Inr None
      else
        (let url' = (if str_contains ''@!'' url then re_sub_size url else url) in
         case get_parsed_object_from_url lib url' of
           Inl e \<Rightarrow> Inl e
         | Inr parsed_object \<Rightarrow>
             (case make_url_by_referer lib (parsed_object\<lparr>fragment := []\<rparr>) referer_url of
                Inl e \<Rightarrow> Inl e
              | Inr resolved \<Rightarrow> Inr (Some (geturl lib resolved)))))"

text \<open>The text that \<open>parse_url\<close> hands to \<open>urlparse\<close>: the link without its spaces
  and without its \<open>@!\<close> suffix.\<close>

definition cleaned_link :: "string \<Rightarrow> string" where
  "cleaned_link url0 =
     (let url = remove_char (CHR '' '') url0 in
      if str_contains ''@!'' url then re_sub_size url else url)"

text \<open>The two optional splits of \<open>urlsplit\<close>, at the first \<open>#\<close> and at the first
  \<open>?\<close>: \<open>url.split(c, 1)\<close> when \<open>c\<close> occurs in \<open>url\<close>.\<close>

definition split_at :: "char \<Rightarrow> string \<Rightarrow> string \<times> string" where
  "split_at c v = (if c \<in> set v then split_first c v else (v, []))"


section \<open>Status strings\<close>

text \<open>
  The crawler keeps the outcome of a fetch in a string: \<open>str(resp.status_code)\<close> or the
  name of an exception class, and tests it with \<open>isdigit()\<close> and \<open>int()\<close>.
  \<open>str_int\<close> is \<open>str\<close> on integers, \<open>isdigit\<close> and \<open>int_of_str\<close> are the two
  tests on the strings the crawler builds (decimal digits and ASCII tags).
\<close>

fun str_nat :: "nat \<Rightarrow> string" where
  "str_nat n = (if n < 10 then [digit_chars ! n] else str_nat (n div 10) @ [digit_chars ! (n mod 10)])"

definition str_int :: "int \<Rightarrow> string" where
  "str_int i = (if i < 0 then CHR ''-'' # str_nat (nat (- i)) else str_nat (nat i))"

definition isdigit :: "string \<Rightarrow> bool" where
  "isdigit s = (s \<noteq> [] \<and> list_all (\<lambda>c. c \<in> set digit_chars) s)"

definition digit_val :: "char \<Rightarrow> nat" where
  "digit_val c = (case map_of (zip digit_chars [0, 1, 2, 3, 4, 5, 6, 7, 8, 9]) c of
                    None \<Rightarrow> 0 | Some d \<Rightarrow> d)"

definition int_of_str :: "string \<Rightarrow> int" where
  "int_of_str s = int (foldl (\<lambda>acc c. acc * 10 + digit_val c) 0 s)"

section \<open>The URL ledger\<close>

text \<open>
  Modelled from the spec: the class \<open>UrlQueue\<close> of \<open>webcrawler/url_queue.py\<close>, which
  \<open>core.py\<close> imports and which is not among the sources. The spec's section 4.4 gives its
  contract: \<open>addUnvisited\<close> inserts each URL that is neither visited nor queued,
  \<open>getOneUnvisited\<close> removes and returns the oldest queued URL (none when the queue is
  empty), \<open>markVisited\<close> moves the URL to the visited set and records the fingerprint.
\<close>

record url_queue =
  unvisited :: "string list"
  visited :: "string \<rightharpoonup> string option"

definition empty_url_queue :: url_queue where
  "empty_url_queue = \<lparr>unvisited = [], visited = Map.empty\<rparr>"

definition is_url_visited :: "url_queue \<Rightarrow> string \<Rightarrow> bool" where
  "is_url_visited q url = (visited q url \<noteq> None)"

definition add_unvisited_url :: "url_queue \<Rightarrow> string \<Rightarrow> url_queue" where
  "add_unvisited_url q url =
     (if is_url_visited q url \<or> url \<in> set (unvisited q) then q
      else q\<lparr>unvisited := unvisited q @ [url]\<rparr>)"

definition add_unvisited_urls :: "url_queue \<Rightarrow> string list \<Rightarrow> url_queue" where
  "add_unvisited_urls q urls = foldl add_unvisited_url q urls"

definition is_unvisited_urls_empty :: "url_queue \<Rightarrow> bool" where
  "is_unvisited_urls_empty q = (unvisited q = [])"

definition get_one_unvisited_url :: "url_queue \<Rightarrow> string option \<times> url_queue" where
  "get_one_unvisited_url q =
     (case unvisited q of
        [] \<Rightarrow> (None, q)
      | u # us \<Rightarrow> (Some u, q\<lparr>unvisited := us\<rparr>))"

definition add_visited_url :: "url_queue \<Rightarrow> string \<Rightarrow> string option \<Rightarrow> url_queue" where
  "add_visited_url q url md5 =
     q\<lparr>unvisited := removeAll url (unvisited q), visited := (visited q)(url \<mapsto> md5)\<rparr>"

section \<open>Requests, responses and the crawler's state\<close>

datatype http_method = HEAD | GET

text \<open>What \<open>requests.head(url, **kwargs)\<close> and \<open>requests.get(url, **kwargs)\<close> are
  called with: the URL, the \<open>User-Agent\<close> header, the credentials and the timeout.\<close>

record request =
  req_method :: http_method
  req_url :: string
  req_user_agent :: string
  req_auth :: "(string \<times> string) option"
  req_timeout :: int

text \<open>What the crawler reads of a response; \<open>content_type\<close> is \<open>None\<close> when
  \<open>resp.headers['Content-Type']\<close> raises \<open>KeyError\<close>.\<close>

record response =
  status_code :: int
  content_type :: "string option"
  resp_url :: string
  content :: string

text \<open>
  The exceptions of a request, by the \<open>except\<close> clause of \<open>get_hyper_links\<close> that
  catches them (the clauses are tried in this order, so an exception that is both a
  connection error and a timeout counts as \<open>ConnectionError\<close>); the argument is
  \<open>str(ex)\<close>. \<open>OtherException\<close> is any exception that no clause catches.
\<close>

datatype request_exception =
    SSLError string
  | ConnectionError string
  | Timeout
  | InvalidSchema string
  | ChunkedEncodingError string
  | OtherException string

text \<open>The values \<open>load_config\<close> reads from \<open>config.yml\<close>.\<close>

record config =
  static_types :: "string list"
  user_agent_mobile :: string
  user_agent_www :: string
  default_timeout :: int

text \<open>
  The collaborators of the crawl engine: the library routines, the configuration, the
  transport (the answer to the \<open>n\<close>-th request of the run), \<open>helpers.get_md5\<close> and
  the \<open>lxml\<close> selection of \<open>parse_page_links\<close> (the \<open>href\<close> or \<open>src\<close> attributes of
  the \<open>a\<close>, \<open>link\<close>, \<open>script\<close> and \<open>img\<close> elements of a body, none when the body
  does not parse).
\<close>

record env =
  lib :: pylib
  cfg :: config
  send :: "nat \<Rightarrow> request \<Rightarrow> request_exception + response"
  get_md5 :: "string \<Rightarrow> string"
  raw_links :: "string \<Rightarrow> string list"

text \<open>
  The fields of \<open>WebCrawler\<close> that \<open>reset_all\<close> creates, with two logs added: the
  requests sent so far and the arguments of \<open>time.sleep\<close>. A Python set of URLs is a list
  without duplicates, in the order in which the set is iterated.
\<close>

record web_crawler =
  current_depth :: nat
  test_counter :: nat
  categorised_urls :: "string \<rightharpoonup> string set"
  web_urls_mapping :: "string \<rightharpoonup> string list"
  bad_urls_mapping :: "string \<rightharpoonup> string"
  internal_hosts_list :: "string list"
  auth_dict :: "string \<rightharpoonup> string \<times> string"
  url_queue :: url_queue
  requests_sent :: "request list"
  sleeps :: "int list"

definition set_add :: "'a \<Rightarrow> 'a list \<Rightarrow> 'a list" where
  "set_add x xs = (if x \<in> set xs then xs else xs @ [x])"

definition reset_all_website ::
    "pylib \<Rightarrow> web_crawler \<Rightarrow> string \<times> (string \<times> string) option \<Rightarrow> error + web_crawler" where
  "reset_all_website l st website =
     (let st1 = st\<lparr>url_queue := add_unvisited_url (url_queue st) (fst website)\<rparr> in
      case get_parsed_object_from_url l (fst website) of
        Inl e \<Rightarrow> Inl e
      | Inr parsed \<Rightarrow>
          (let st2 = st1\<lparr>internal_hosts_list := internal_hosts_list st1 @ [netloc parsed]\<rparr> in
           case snd website of
             None \<Rightarrow> Inr st2
           | Some a \<Rightarrow> Inr (st2\<lparr>auth_dict := (auth_dict st2)(netloc parsed \<mapsto> a)\<rparr>)))"

fun reset_all_loop ::
    "pylib \<Rightarrow> web_crawler \<Rightarrow> (string \<times> (string \<times> string) option) list \<Rightarrow> error + web_crawler" where
  "reset_all_loop l st [] = Inr st"
| "reset_all_loop l st (w # ws) =
     (case reset_all_website l st w of
        Inl e \<Rightarrow> Inl e
      | Inr st' \<Rightarrow> reset_all_loop l st' ws)"

definition reset_all ::
    "pylib \<Rightarrow> (string \<times> (string \<times> string) option) list \<Rightarrow> error + web_crawler" where
  "reset_all l website_list =
     reset_all_loop l
       \<lparr>current_depth = 0, test_counter = 0, categorised_urls = Map.empty,
        web_urls_mapping = Map.empty, bad_urls_mapping = Map.empty,
        internal_hosts_list = [], auth_dict = Map.empty, url_queue = empty_url_queue,
        requests_sent = [], sleeps = []\<rparr>
       website_list"

definition get_user_agent_by_url :: "config \<Rightarrow> string \<Rightarrow> string" where
  "get_user_agent_by_url c url =
     (if str_contains ''//m.'' url then user_agent_mobile c else user_agent_www c)"

definition get_url_type :: "config \<Rightarrow> string list \<Rightarrow> response \<Rightarrow> string \<Rightarrow> string" where
  "get_url_type c internal_hosts resp req_host =
     (case content_type resp of
        None \<Rightarrow> ''IGNORE''
      | Some ct \<Rightarrow>
          if ct \<in> set (static_types c) then ''static''
          else if req_host \<notin> set internal_hosts then ''external''
          else ''recursive'')"

fun parse_urls :: "pylib \<Rightarrow> string list \<Rightarrow> string \<Rightarrow> string list \<Rightarrow> error + string list" where
  "parse_urls l [] referer_url parsed_urls_set = Inr parsed_urls_set"
| "parse_urls l (url # urls) referer_url parsed_urls_set =
     (case parse_url l url referer_url of
        Inl e \<Rightarrow> Inl e
      | Inr None \<Rightarrow> parse_urls l urls referer_url parsed_urls_set
      | Inr (Some parsed_url) \<Rightarrow>
          parse_urls l urls referer_url (set_add parsed_url parsed_urls_set))"

definition parse_page_links :: "env \<Rightarrow> string \<Rightarrow> string \<Rightarrow> error + string list" where
  "parse_page_links e referer_url body =
     parse_urls (lib e) (remdups (raw_links e body)) referer_url []"

definition save_categorised_url :: "web_crawler \<Rightarrow> string \<Rightarrow> string \<Rightarrow> web_crawler" where
  "save_categorised_url st status url =
     st\<lparr>categorised_urls := (categorised_urls st)
          (status \<mapsto> insert url (case categorised_urls st status of
                                     None \<Rightarrow> {} | Some urls \<Rightarrow> urls))\<rparr>"

definition print_log :: "web_crawler \<Rightarrow> web_crawler" where
  "print_log st = st\<lparr>test_counter := test_counter st + 1\<rparr>"

definition do_request :: "env \<Rightarrow> web_crawler \<Rightarrow> request \<Rightarrow> (request_exception + response) \<times> web_crawler" where
  "do_request e st req =
     (send e (length (requests_sent st)) req,
      st\<lparr>requests_sent := requests_sent st @ [req]\<rparr>)"

section \<open>Fetching one URL: \<open>get_hyper_links\<close>\<close>

text \<open>The local variables of \<open>get_hyper_links\<close> when its \<open>try\<close> statement is left.\<close>

record attempt_result =
  a_status :: string
  a_exception_str :: string
  a_md5 :: "string option"
  a_links :: "string list"
  a_retry :: nat

text \<open>The \<open>except\<close> clauses; an exception that none of them catches leaves the function.\<close>

definition handle_exception :: "config \<Rightarrow> request_exception \<Rightarrow> nat \<Rightarrow> error + attempt_result" where
  "handle_exception c ex retry_times =
     (case ex of
        SSLError m \<Rightarrow>
          Inr \<lparr>a_status = ''SSLError'', a_exception_str = m, a_md5 = None, a_links = [],
               a_retry = 0\<rparr>
      | ConnectionError m \<Rightarrow>
          Inr \<lparr>a_status = ''ConnectionError'', a_exception_str = m, a_md5 = None, a_links = [],
               a_retry = retry_times\<rparr>
      | Timeout \<Rightarrow>
          Inr \<lparr>a_status = ''Timeout'',
               a_exception_str = ''Timed out for '' @ str_int (default_timeout c) @ '' seconds'',
               a_md5 = None, a_links = [], a_retry = retry_times\<rparr>
      | InvalidSchema m \<Rightarrow>
          Inr \<lparr>a_status = ''InvalidSchema'', a_exception_str = m, a_md5 = None, a_links = [],
               a_retry = 0\<rparr>
      | ChunkedEncodingError m \<Rightarrow>
          Inr \<lparr>a_status = ''ChunkedEncodingError'', a_exception_str = m, a_md5 = None,
               a_links = [], a_retry = retry_times\<rparr>
      | OtherException m \<Rightarrow> Inl (RequestException m))"

text \<open>The \<open>try\<close> statement: HEAD, classification, and GET with link extraction for a
  \<open>recursive\<close> URL.\<close>

definition try_fetch ::
    "env \<Rightarrow> web_crawler \<Rightarrow> string \<Rightarrow> request \<Rightarrow> string \<Rightarrow> nat
      \<Rightarrow> error + web_crawler \<times> attempt_result" where
  "try_fetch e st url kwargs url_host retry_times =
     (case do_request e st (kwargs\<lparr>req_method := HEAD\<rparr>) of
        (Inl ex, st1) \<Rightarrow>
          (case handle_exception (cfg e) ex retry_times of
             Inl err \<Rightarrow> Inl err
           | Inr a \<Rightarrow> Inr (st1, a))
      | (Inr resp, st1) \<Rightarrow>
          (let url_type = get_url_type (cfg e) (internal_hosts_list st1) resp url_host in
           if url_type \<in> set [''static'', ''external''] then
             Inr (st1, \<lparr>a_status = str_int (status_code resp), a_exception_str = [],
                        a_md5 = None, a_links = [], a_retry = retry_times\<rparr>)
           else if url_type = ''IGNORE'' then
             Inr (st1, \<lparr>a_status = str_int (status_code resp), a_exception_str = [],
                        a_md5 = None, a_links = [], a_retry = 0\<rparr>)
           else
             (case do_request e st1 (kwargs\<lparr>req_method := GET\<rparr>) of
                (Inl ex, st2) \<Rightarrow>
                  (case handle_exception (cfg e) ex retry_times of
                     Inl err \<Rightarrow> Inl err
                   | Inr a \<Rightarrow> Inr (st2, a))
              | (Inr resp2, st2) \<Rightarrow>
                  (case parse_page_links e (resp_url resp2) (content resp2) of
                     Inl err \<Rightarrow> Inl err
                   | Inr hyper_links_set \<Rightarrow>
                       (let st3 = (if web_urls_mapping st2 url = None
                                   then st2\<lparr>web_urls_mapping :=
                                          (web_urls_mapping st2)(url \<mapsto> hyper_links_set)\<rparr>
                                   else st2);
                            status = str_int (status_code resp2);
                            st4 = st3\<lparr>url_queue :=
                                    add_unvisited_urls (url_queue st3) hyper_links_set\<rparr>
                        in Inr (st4,
                             \<lparr>a_status = status,
                              a_exception_str =
                                (if status_code resp2 > 400
                                 then ''HTTP Status Code is '' @ status @ ''.'' else []),
                              a_md5 = Some (get_md5 e (content resp2)),
                              a_links = hyper_links_set,
                              a_retry = retry_times\<rparr>))))))"

lemma handle_exception_retry_le:
  "handle_exception c ex r = Inr a \<Longrightarrow> a_retry a \<le> r"
  by (cases ex) (auto simp: handle_exception_def)

lemma try_fetch_retry_le:
  "try_fetch e st url kwargs url_host r = Inr (st', a) \<Longrightarrow> a_retry a \<le> r"
  by (auto simp: try_fetch_def Let_def split: prod.splits sum.splits if_splits
           dest: handle_exception_retry_le)

text \<open>The request options of \<open>get_hyper_links\<close>: a copy of \<open>self.kwargs\<close> with the
  \<open>User-Agent\<close> of the URL and, when the host has credentials, \<open>auth\<close>.\<close>

definition request_options :: "env \<Rightarrow> web_crawler \<Rightarrow> string \<Rightarrow> string \<Rightarrow> request" where
  "request_options e st url url_host =
     \<lparr>req_method = HEAD, req_url = url,
      req_user_agent = get_user_agent_by_url (cfg e) url,
      req_auth = auth_dict st url_host,
      req_timeout = default_timeout (cfg e)\<rparr>"

text \<open>The end of \<open>get_hyper_links\<close> when no retry is made: the \<open>else\<close> branch of
  \<open>if retry_times > 0\<close>, \<open>save_categorised_url\<close> and \<open>add_visited_url\<close>.\<close>

definition record_outcome :: "web_crawler \<Rightarrow> string \<Rightarrow> attempt_result \<Rightarrow> web_crawler" where
  "record_outcome st url a =
     (let st1 = (if a_retry a > 0 then st
                 else st\<lparr>bad_urls_mapping := (bad_urls_mapping st)(url \<mapsto> a_exception_str a)\<rparr>);
          st2 = save_categorised_url st1 (a_status a) url
      in st2\<lparr>url_queue := add_visited_url (url_queue st2) url (a_md5 a)\<rparr>)"

text \<open>
  \<open>get_hyper_links(url, depth, retry_times)\<close>. \<open>time.sleep\<close> raises \<open>ValueError\<close> on a
  negative argument. The result is the new state and \<open>hyper_links_set\<close>.
\<close>

function get_hyper_links ::
    "env \<Rightarrow> web_crawler \<Rightarrow> string \<Rightarrow> nat \<Rightarrow> nat \<Rightarrow> error + web_crawler \<times> string list" where
  "get_hyper_links e st url depth retry_times =
     (case get_parsed_object_from_url (lib e) url of
        Inl err \<Rightarrow> Inl err
      | Inr parsed_object \<Rightarrow>
          (case try_fetch e st url (request_options e st url (netloc parsed_object))
                  (netloc parsed_object) retry_times of
             Inl err \<Rightarrow> Inl err
           | Inr (st1, a) \<Rightarrow>
               if a_retry a > 0
                  \<and> (\<not> isdigit (a_status a) \<or> int_of_str (a_status a) > 400)
               then
                 (if (4 - int (a_retry a)) * 2 < 0 then Inl ValueError
                  else get_hyper_links e
                         ((print_log st1)\<lparr>sleeps := sleeps st1 @ [(4 - int (a_retry a)) * 2]\<rparr>)
                         url depth (a_retry a - 1))
               else Inr (record_outcome (print_log st1) url a, a_links a)))"
  by pat_completeness auto
termination
proof (relation "measure (\<lambda>(e, st, url, depth, retry_times). retry_times)")
  show "wf (measure (\<lambda>(e, st, url, depth, retry_times). retry_times))"
    by simp
next
  fix e :: env and st :: web_crawler and url :: string and depth retry_times :: nat
    and parsed_object :: parse_result and x2 :: "web_crawler \<times> attempt_result"
    and st1 :: web_crawler and a :: attempt_result
  assume fetch: "try_fetch e st url (request_options e st url (netloc parsed_object))
                  (netloc parsed_object) retry_times = Inr x2"
    and x2: "(st1, a) = x2"
    and pos: "0 < a_retry a \<and> (\<not> isdigit (a_status a) \<or> 400 < int_of_str (a_status a))"
  from fetch x2 have "a_retry a \<le> retry_times"
    using try_fetch_retry_le by metis
  with pos show "((e, (print_log st1)\<lparr>sleeps := sleeps st1 @ [(4 - int (a_retry a)) * 2]\<rparr>,
                   url, depth, a_retry a - 1),
                  (e, st, url, depth, retry_times))
                 \<in> measure (\<lambda>(e, st, url, depth, retry_times). retry_times)"
    by auto
qed

declare get_hyper_links.simps [simp del]

section \<open>Depth-first traversal: \<open>run_dfs\<close>\<close>

text \<open>
  The nested \<open>crawler(url, depth)\<close> of \<open>run_dfs\<close> and its \<open>for url in urls\<close> loop.
  \<open>get_hyper_links\<close> is called with its default \<open>retry_times=3\<close>.
\<close>

function crawler ::
    "env \<Rightarrow> nat \<Rightarrow> web_crawler \<Rightarrow> string \<Rightarrow> nat \<Rightarrow> error + web_crawler"
  and crawler_for ::
    "env \<Rightarrow> nat \<Rightarrow> web_crawler \<Rightarrow> string list \<Rightarrow> nat \<Rightarrow> error + web_crawler" where
  "crawler e max_depth st url depth =
     (if depth > max_depth then Inr st
      else if is_url_visited (url_queue st) url then crawler_for e max_depth st [] (depth + 1)
      else
        (case get_hyper_links e st url depth 3 of
           Inl err \<Rightarrow> Inl err
         | Inr (st', urls) \<Rightarrow> crawler_for e max_depth st' urls (depth + 1)))"
| "crawler_for e max_depth st [] depth = Inr st"
| "crawler_for e max_depth st (url # urls) depth =
     (case crawler e max_depth st url depth of
        Inl err \<Rightarrow> Inl err
      | Inr st' \<Rightarrow> crawler_for e max_depth st' urls depth)"
  by pat_completeness auto
termination
  by (relation "measures
        [\<lambda>x. case x of
                Inl (e, max_depth, st, url, depth) \<Rightarrow> 2 * (max_depth + 1 - depth)
              | Inr (e, max_depth, st, urls, depth) \<Rightarrow> 2 * (max_depth + 1 - depth) + 1,
         \<lambda>x. case x of
                Inl (e, max_depth, st, url, depth) \<Rightarrow> 0
              | Inr (e, max_depth, st, urls, depth) \<Rightarrow> length urls]")
     auto

declare crawler.simps [simp del]

text \<open>
  The \<open>while\<close> loop of \<open>run_dfs\<close>, with a bound on the number of iterations: \<open>None\<close>
  means that the loop has not ended within the bound.
\<close>

fun run_dfs :: "nat \<Rightarrow> env \<Rightarrow> nat \<Rightarrow> web_crawler \<Rightarrow> (error + web_crawler) option" where
  "run_dfs 0 e max_depth st =
     (if is_unvisited_urls_empty (url_queue st) then Some (Inr st) else None)"
| "run_dfs (Suc fuel) e max_depth st =
     (if is_unvisited_urls_empty (url_queue st) then Some (Inr st)
      else
        (case get_one_unvisited_url (url_queue st) of
           (None, q) \<Rightarrow> Some (Inr (st\<lparr>url_queue := q\<rparr>))
         | (Some url, q) \<Rightarrow>
             (case crawler e max_depth (st\<lparr>url_queue := q\<rparr>) url (current_depth st) of
                Inl err \<Rightarrow> Some (Inl err)
              | Inr st' \<Rightarrow> run_dfs fuel e max_depth st')))"

section \<open>A concrete site for the examples\<close>

text \<open>
  The values below fix one library, one configuration and one way of reading links off a
  page body (the links of a page, separated by \<open>|\<close>), so that the functions above can
  be run on concrete inputs. The transport is the argument of \<open>example_env\<close>.
\<close>

definition strict_lib :: pylib where
  "strict_lib =
     \<lparr>unicode_escape = (\<lambda>s. None), check_bracketed_host = (\<lambda>h. False),
      double_slash_kept = False\<rparr>"

definition example_config :: config where
  "example_config =
     \<lparr>static_types = [''text/css'', ''image/png''], user_agent_mobile = ''mobile-agent'',
      user_agent_www = ''www-agent'', default_timeout = 10\<rparr>"

definition example_links :: "string \<Rightarrow> string list" where
  "example_links body = (if body = [] then [] else split_on (CHR ''|'') body)"

definition example_env :: "(nat \<Rightarrow> request \<Rightarrow> request_exception + response) \<Rightarrow> env" where
  "example_env transport =
     \<lparr>lib = strict_lib, cfg = example_config, send = transport,
      get_md5 = (\<lambda>body. ''md5-'' @ body), raw_links = example_links\<rparr>"

text \<open>The state of a crawler created for the single seed \<open>http://a.example.com/\<close>, as
  \<open>reset_all\<close> leaves it.\<close>

definition example_start :: web_crawler where
  "example_start =
     \<lparr>current_depth = 0, test_counter = 0, categorised_urls = Map.empty,
      web_urls_mapping = Map.empty, bad_urls_mapping = Map.empty,
      internal_hosts_list = [''a.example.com''], auth_dict = Map.empty,
      url_queue = \<lparr>unvisited = [''http://a.example.com/''], visited = Map.empty\<rparr>,
      requests_sent = [], sleeps = []\<rparr>"

text \<open>A transport on which every request fails with a refused connection.\<close>

definition refusing :: "nat \<Rightarrow> request \<Rightarrow> request_exception + response" where
  "refusing n req = Inl (ConnectionError ''Connection refused'')"

text \<open>A transport on which every request is answered with the given status code and
  Content-Type header and an empty body.\<close>

definition answering :: "int \<Rightarrow> string option \<Rightarrow> nat \<Rightarrow> request \<Rightarrow> request_exception + response" where
  "answering code ct n req =
     Inr \<lparr>status_code = code, content_type = ct, resp_url = req_url req, content = []\<rparr>"

text \<open>A transport that refuses the first three requests and then answers 200 with a
  static content type.\<close>

definition recovering :: "nat \<Rightarrow> request \<Rightarrow> request_exception + response" where
  "recovering n req =
     (if n < 3 then Inl (ConnectionError ''Connection refused'')
      else answering 200 (Some ''text/css'') n req)"

text \<open>A site of two pages: the seed page links to \<open>/b\<close>, and \<open>/b\<close> has no links.\<close>

definition two_pages :: "nat \<Rightarrow> request \<Rightarrow> request_exception + response" where
  "two_pages n req =
     Inr \<lparr>status_code = 200, content_type = Some ''text/html'', resp_url = req_url req,
          content = (if req_url req = ''http://a.example.com/'' then ''/b'' else [])\<rparr>"

text \<open>
  What the examples read off the result of \<open>get_hyper_links\<close>: the number of requests
  sent, the sleeps, the entry of the URL in the bad-URL map, and for each given key of the
  categorisation map whether the URL is filed under it.
\<close>

definition observed ::
    "string \<Rightarrow> string list \<Rightarrow> error + web_crawler \<times> string list
      \<Rightarrow> error + nat \<times> int list \<times> string option \<times> (string \<times> bool) list" where
  "observed url keys r =
     (case r of
        Inl e \<Rightarrow> Inl e
      | Inr (st, links) \<Rightarrow>
          Inr (length (requests_sent st), sleeps st, bad_urls_mapping st url,
               map (\<lambda>k. (k, case categorised_urls st k of
                               None \<Rightarrow> False | Some urls \<Rightarrow> url \<in> urls)) keys))"

text \<open>
  What the examples read off the result of \<open>run_dfs\<close>: the requests sent, whether the
  given URL is visited, and the URLs left unvisited.
\<close>

definition dfs_observed ::
    "string \<Rightarrow> (error + web_crawler) option
      \<Rightarrow> ((http_method \<times> string) list \<times> bool \<times> string list) option" where
  "dfs_observed url r =
     (case r of
        Some (Inr st) \<Rightarrow>
          Some (map (\<lambda>q. (req_method q, req_url q)) (requests_sent st),
                is_url_visited (url_queue st) url, unvisited (url_queue st))
      | _ \<Rightarrow> None)"

section \<open>Vocabulary of the retry policy\<close>

text \<open>
  The exceptions whose \<open>except\<close> clause leaves \<open>retry_times\<close> as it is (connection
  error, timeout, chunked-encoding error), the tag each clause stores in \<open>status_code\<close>
  and the text it stores in \<open>exception_str\<close>.
\<close>

definition transient :: "request_exception \<Rightarrow> bool" where
  "transient ex =
     (case ex of
        ConnectionError m \<Rightarrow> True
      | Timeout \<Rightarrow> True
      | ChunkedEncodingError m \<Rightarrow> True
      | _ \<Rightarrow> False)"

definition failure_tag :: "request_exception \<Rightarrow> string" where
  "failure_tag ex =
     (case ex of
        SSLError m \<Rightarrow> ''SSLError''
      | ConnectionError m \<Rightarrow> ''ConnectionError''
      | Timeout \<Rightarrow> ''Timeout''
      | InvalidSchema m \<Rightarrow> ''InvalidSchema''
      | ChunkedEncodingError m \<Rightarrow> ''ChunkedEncodingError''
      | OtherException m \<Rightarrow> [])"

definition failure_detail :: "config \<Rightarrow> request_exception \<Rightarrow> string" where
  "failure_detail c ex =
     (case ex of
        SSLError m \<Rightarrow> m
      | ConnectionError m \<Rightarrow> m
      | Timeout \<Rightarrow> ''Timed out for '' @ str_int (default_timeout c) @ '' seconds''
      | InvalidSchema m \<Rightarrow> m
      | ChunkedEncodingError m \<Rightarrow> m
      | OtherException m \<Rightarrow> m)"

section \<open>The resolver on the documented links\<close>

text \<open>
  Claim C1. Against the referer \<open>https://store.example.com/product/osmo\<close> the resolver
  returns the documented absolute URL for the sibling-relative link \<open>phantom-4-pro\<close>, the
  scheme-relative link \<open>//asset.cdn.com/a.png\<close>, the root-relative link
  \<open>/category/phantom\<close> and the parent-relative link \<open>../compare-phantom-3\<close>, and it
  discards (returns \<open>None\<close> for) \<open>#overview\<close>, \<open>javascript:void(0)\<close>,
  \<open>mailto:a@b.com\<close>, \<open>tel:123\<close>, \<open>data:image/png;...\<close> and the empty string,
  whatever the library parameters are.
\<close>

theorem resolver_literal_cases:
  "parse_url l ''phantom-4-pro'' ''https://store.example.com/product/osmo''
     = Inr (Some ''https://store.example.com/product/phantom-4-pro'')
   \<and> parse_url l ''//asset.cdn.com/a.png'' ''https://store.example.com/product/osmo''
     = Inr (Some ''http://asset.cdn.com/a.png'')
   \<and> parse_url l ''/category/phantom'' ''https://store.example.com/product/osmo''
     = Inr (Some ''https://store.example.com/category/phantom'')
   \<and> parse_url l ''../compare-phantom-3'' ''https://store.example.com/product/osmo''
     = Inr (Some ''https://store.example.com/compare-phantom-3'')
   \<and> parse_url l ''#overview'' ''https://store.example.com/product/osmo'' = Inr None
   \<and> parse_url l ''javascript:void(0)'' ''https://store.example.com/product/osmo'' = Inr None
   \<and> parse_url l ''mailto:a@b.com'' ''https://store.example.com/product/osmo'' = Inr None
   \<and> parse_url l ''tel:123'' ''https://store.example.com/product/osmo'' = Inr None
   \<and> parse_url l ''data:image/png;...'' ''https://store.example.com/product/osmo'' = Inr None
   \<and> parse_url l [] ''https://store.example.com/product/osmo'' = Inr None"
proof (intro conjI)
  show "parse_url l ''phantom-4-pro'' ''https://store.example.com/product/osmo''
     = Inr (Some ''https://store.example.com/product/phantom-4-pro'')"
    by code_simp
  show "parse_url l ''//asset.cdn.com/a.png'' ''https://store.example.com/product/osmo''
     = Inr (Some ''http://asset.cdn.com/a.png'')"
    by code_simp
  show "parse_url l ''/category/phantom'' ''https://store.example.com/product/osmo''
     = Inr (Some ''https://store.example.com/category/phantom'')"
    by code_simp
  show "parse_url l ''../compare-phantom-3'' ''https://store.example.com/product/osmo''
     = Inr (Some ''https://store.example.com/compare-phantom-3'')"
    by code_simp
  show "parse_url l ''#overview'' ''https://store.example.com/product/osmo'' = Inr None"
    by code_simp
  show "parse_url l ''javascript:void(0)'' ''https://store.example.com/product/osmo'' = Inr None"
    by code_simp
  show "parse_url l ''mailto:a@b.com'' ''https://store.example.com/product/osmo'' = Inr None"
    by code_simp
  show "parse_url l ''tel:123'' ''https://store.example.com/product/osmo'' = Inr None"
    by code_simp
  show "parse_url l ''data:image/png;...'' ''https://store.example.com/product/osmo'' = Inr None"
    by code_simp
  show "parse_url l [] ''https://store.example.com/product/osmo'' = Inr None"
    by code_simp
qed

section \<open>The fetch classifier\<close>

text \<open>
  Claim C3. \<open>get_url_type\<close> returns \<open>IGNORE\<close> when the response has no Content-Type
  header; \<open>static\<close> whenever the content type is in the configured static list, whether
  the host is internal or not; \<open>external\<close> when a content type is present, is not
  static, and the host is not internal; and \<open>recursive\<close> otherwise.
\<close>

theorem fetch_classifier:
  "(content_type resp = None \<longrightarrow> get_url_type c hosts resp h = ''IGNORE'')
   \<and> (\<forall>ct. content_type resp = Some ct \<and> ct \<in> set (static_types c)
          \<longrightarrow> get_url_type c hosts resp h = ''static'')
   \<and> (\<forall>ct. content_type resp = Some ct \<and> ct \<notin> set (static_types c) \<and> h \<notin> set hosts
          \<longrightarrow> get_url_type c hosts resp h = ''external'')
   \<and> (\<forall>ct. content_type resp = Some ct \<and> ct \<notin> set (static_types c) \<and> h \<in> set hosts
          \<longrightarrow> get_url_type c hosts resp h = ''recursive'')"
  by (simp add: get_url_type_def)

theorem fetch_classifier_witness:
  "get_url_type example_config [''a.example.com'']
      \<lparr>status_code = 200, content_type = None, resp_url = ''http://a.example.com/'', content = []\<rparr>
      ''a.example.com'' = ''IGNORE''
   \<and> get_url_type example_config [''a.example.com'']
      \<lparr>status_code = 200, content_type = Some ''text/css'', resp_url = ''http://c.other.com/s.css'', content = []\<rparr>
      ''c.other.com'' = ''static''
   \<and> get_url_type example_config [''a.example.com'']
      \<lparr>status_code = 200, content_type = Some ''text/html'', resp_url = ''http://c.other.com/'', content = []\<rparr>
      ''c.other.com'' = ''external''
   \<and> get_url_type example_config [''a.example.com'']
      \<lparr>status_code = 200, content_type = Some ''text/html'', resp_url = ''http://a.example.com/'', content = []\<rparr>
      ''a.example.com'' = ''recursive''"
proof (intro conjI)
  show "get_url_type example_config [''a.example.com'']
      \<lparr>status_code = 200, content_type = None, resp_url = ''http://a.example.com/'', content = []\<rparr>
      ''a.example.com'' = ''IGNORE''"
    using fetch_classifier [of "\<lparr>status_code = 200, content_type = None, resp_url = ''http://a.example.com/'', content = []\<rparr>"
        example_config "[''a.example.com'']" "''a.example.com''"]
    by simp
  show "get_url_type example_config [''a.example.com'']
      \<lparr>status_code = 200, content_type = Some ''text/css'', resp_url = ''http://c.other.com/s.css'', content = []\<rparr>
      ''c.other.com'' = ''static''"
    using fetch_classifier [of "\<lparr>status_code = 200, content_type = Some ''text/css'', resp_url = ''http://c.other.com/s.css'', content = []\<rparr>"
        example_config "[''a.example.com'']" "''c.other.com''"]
    by (simp add: example_config_def)
  show "get_url_type example_config [''a.example.com'']
      \<lparr>status_code = 200, content_type = Some ''text/html'', resp_url = ''http://c.other.com/'', content = []\<rparr>
      ''c.other.com'' = ''external''"
    using fetch_classifier [of "\<lparr>status_code = 200, content_type = Some ''text/html'', resp_url = ''http://c.other.com/'', content = []\<rparr>"
        example_config "[''a.example.com'']" "''c.other.com''"]
    by (simp add: example_config_def)
  show "get_url_type example_config [''a.example.com'']
      \<lparr>status_code = 200, content_type = Some ''text/html'', resp_url = ''http://a.example.com/'', content = []\<rparr>
      ''a.example.com'' = ''recursive''"
    using fetch_classifier [of "\<lparr>status_code = 200, content_type = Some ''text/html'', resp_url = ''http://a.example.com/'', content = []\<rparr>"
        example_config "[''a.example.com'']" "''a.example.com''"]
    by (simp add: example_config_def)
qed

section \<open>The user agent of a request\<close>

lemma startswith_iff: "startswith s p \<longleftrightarrow> (\<exists>post. s = p @ post)"
  unfolding startswith_def
proof
  assume "take (length p) s = p"
  then have "s = p @ drop (length p) s" by (metis append_take_drop_id)
  then show "\<exists>post. s = p @ post" ..
next
  assume "\<exists>post. s = p @ post"
  then show "take (length p) s = p" by auto
qed

lemma str_contains_iff: "str_contains sub s \<longleftrightarrow> (\<exists>pre post. s = pre @ sub @ post)"
proof (induction s)
  case Nil
  then show ?case by auto
next
  case (Cons c cs)
  show ?case
  proof
    assume "str_contains sub (c # cs)"
    then consider "startswith (c # cs) sub" | "str_contains sub cs" by auto
    then show "\<exists>pre post. c # cs = pre @ sub @ post"
    proof cases
      case 1
      then obtain post where "c # cs = sub @ post" using startswith_iff by blast
      then have "c # cs = [] @ sub @ post" by simp
      then show ?thesis by blast
    next
      case 2
      then obtain pre post where "cs = pre @ sub @ post" using Cons.IH by blast
      then have "c # cs = (c # pre) @ sub @ post" by simp
      then show ?thesis by blast
    qed
  next
    assume "\<exists>pre post. c # cs = pre @ sub @ post"
    then obtain pre post where eq: "c # cs = pre @ sub @ post" by blast
    show "str_contains sub (c # cs)"
    proof (cases pre)
      case Nil
      then have "startswith (c # cs) sub" using eq startswith_iff by auto
      then show ?thesis by simp
    next
      case (Cons a pre')
      then have "cs = pre' @ sub @ post" using eq by simp
      then have "str_contains sub cs" using Cons.IH by blast
      then show ?thesis by simp
    qed
  qed
qed

text \<open>
  Claim C8, as amended. \<open>get_user_agent_by_url\<close> selects the mobile user agent exactly
  when the text \<open>//m.\<close> occurs somewhere in the URL, and the \<open>www\<close> user agent
  otherwise.
\<close>

theorem user_agent_by_substring:
  "get_user_agent_by_url c url =
     (if (\<exists>pre post. url = pre @ ''//m.'' @ post) then user_agent_mobile c
      else user_agent_www c)"
  by (simp add: get_user_agent_by_url_def str_contains_iff)

text \<open>
  Claim C8 as stated fails: the URL \<open>http://www.a.com/?next=//m.a.com\<close> has the host
  \<open>www.a.com\<close>, which does not begin with \<open>m.\<close>, and gets the mobile user agent.
\<close>

theorem user_agent_counterexample:
  "get_user_agent_by_url example_config ''http://www.a.com/?next=//m.a.com'' = user_agent_mobile example_config
   \<and> user_agent_mobile example_config \<noteq> user_agent_www example_config
   \<and> map_sum id netloc (get_parsed_object_from_url strict_lib ''http://www.a.com/?next=//m.a.com'') = Inr ''www.a.com''
   \<and> \<not> startswith ''www.a.com'' ''m.''"
proof (intro conjI)
  show "get_user_agent_by_url example_config ''http://www.a.com/?next=//m.a.com'' = user_agent_mobile example_config"
    by code_simp
  show "user_agent_mobile example_config \<noteq> user_agent_www example_config"
    by code_simp
  show "map_sum id netloc (get_parsed_object_from_url strict_lib ''http://www.a.com/?next=//m.a.com'') = Inr ''www.a.com''"
    by code_simp
  show "\<not> startswith ''www.a.com'' ''m.''"
    by code_simp
qed

section \<open>The retry policy of \<open>get_hyper_links\<close>\<close>

lemma parse_seed: "get_parsed_object_from_url strict_lib ''http://a.example.com/'' =
   Inr \<lparr>scheme = ''http'', netloc = ''a.example.com'', path = ''/'', params = [], query = [], fragment = []\<rparr>"
  by code_simp

lemma example_start_reset_all:
  "reset_all strict_lib [(''http://a.example.com/'', None)] = Inr example_start"
  by (simp add: reset_all_def reset_all_website_def parse_seed example_start_def
      add_unvisited_url_def is_url_visited_def empty_url_queue_def)

lemma get_hyper_links_step:
  assumes "get_parsed_object_from_url (lib e) url = Inr po"
    and "try_fetch e st url (request_options e st url (netloc po)) (netloc po) r = Inr (st1, a)"
  shows "get_hyper_links e st url depth r =
     (if a_retry a > 0 \<and> (\<not> isdigit (a_status a) \<or> int_of_str (a_status a) > 400)
      then (if (4 - int (a_retry a)) * 2 < 0 then Inl ValueError
            else get_hyper_links e
                   ((print_log st1)\<lparr>sleeps := sleeps st1 @ [(4 - int (a_retry a)) * 2]\<rparr>)
                   url depth (a_retry a - 1))
      else Inr (record_outcome (print_log st1) url a, a_links a))"
  using assms
  by (subst get_hyper_links.simps) simp

lemma tag_not_digit: "transient ex \<Longrightarrow> \<not> isdigit (failure_tag ex)"
  by (cases ex) (auto simp: transient_def failure_tag_def isdigit_def digit_chars_def)

lemma try_fetch_head_fails:
  assumes "send e (length (requests_sent st)) (kw\<lparr>req_method := HEAD\<rparr>) = Inl ex"
    and "handle_exception (cfg e) ex r = Inr a"
  shows "try_fetch e st url kw host r = Inr (st\<lparr>requests_sent := requests_sent st @ [kw\<lparr>req_method := HEAD\<rparr>]\<rparr>, a)"
  using assms by (simp add: try_fetch_def do_request_def)

lemma handle_exception_transient:
  "transient ex \<Longrightarrow> handle_exception c ex r =
      Inr \<lparr>a_status = failure_tag ex, a_exception_str = failure_detail c ex, a_md5 = None, a_links = [], a_retry = r\<rparr>"
  by (cases ex) (auto simp: transient_def handle_exception_def failure_tag_def failure_detail_def)

lemma record_outcome_zero:
  "a_retry a = 0 \<Longrightarrow>
   bad_urls_mapping (record_outcome st url a) url = Some (a_exception_str a)
   \<and> (\<exists>urls. categorised_urls (record_outcome st url a) (a_status a) = Some urls \<and> url \<in> urls)
   \<and> is_url_visited (url_queue (record_outcome st url a)) url
   \<and> requests_sent (record_outcome st url a) = requests_sent st
   \<and> sleeps (record_outcome st url a) = sleeps st"
  by (simp add: record_outcome_def Let_def save_categorised_url_def add_visited_url_def is_url_visited_def)

lemma always_failing:
  assumes po: "get_parsed_object_from_url (lib e) url = Inr po"
    and tr: "transient ex"
    and fail: "\<forall>n. send e n (request_options e st url (netloc po)) = Inl ex"
    and r: "r \<le> 4"
  shows "\<exists>st'. get_hyper_links e st url depth r = Inr (st', [])
           \<and> requests_sent st' = requests_sent st @ replicate (Suc r) (request_options e st url (netloc po))
           \<and> sleeps st' = sleeps st @ map (\<lambda>k. (4 - int k) * 2) (rev [1..<Suc r])
           \<and> (\<exists>urls. categorised_urls st' (failure_tag ex) = Some urls \<and> url \<in> urls)
           \<and> bad_urls_mapping st' url = Some (failure_detail (cfg e) ex)
           \<and> is_url_visited (url_queue st') url"
  using fail r
proof (induction r arbitrary: st)
  case 0
  let ?kw = "request_options e st url (netloc po)"
  let ?a = "\<lparr>a_status = failure_tag ex, a_exception_str = failure_detail (cfg e) ex,
              a_md5 = None, a_links = [], a_retry = 0\<rparr>"
  let ?st1 = "st\<lparr>requests_sent := requests_sent st @ [?kw]\<rparr>"
  have hd: "?kw\<lparr>req_method := HEAD\<rparr> = ?kw" by (simp add: request_options_def)
  have "try_fetch e st url ?kw (netloc po) 0 = Inr (?st1, ?a)"
    using try_fetch_head_fails [of e st ?kw ex 0 ?a url "netloc po"] "0.prems"(1) handle_exception_transient [OF tr]
    by (simp add: hd)
  then have "get_hyper_links e st url depth 0 = Inr (record_outcome (print_log ?st1) url ?a, [])"
    using get_hyper_links_step [OF po] by simp
  moreover have "bad_urls_mapping (record_outcome (print_log ?st1) url ?a) url = Some (failure_detail (cfg e) ex)
     \<and> (\<exists>urls. categorised_urls (record_outcome (print_log ?st1) url ?a) (failure_tag ex) = Some urls \<and> url \<in> urls)
     \<and> is_url_visited (url_queue (record_outcome (print_log ?st1) url ?a)) url
     \<and> requests_sent (record_outcome (print_log ?st1) url ?a) = requests_sent (print_log ?st1)
     \<and> sleeps (record_outcome (print_log ?st1) url ?a) = sleeps (print_log ?st1)"
    using record_outcome_zero [of ?a "print_log ?st1" url] by simp
  ultimately show ?case by (simp add: print_log_def)
next
  case (Suc r)
  let ?kw = "request_options e st url (netloc po)"
  let ?a = "\<lparr>a_status = failure_tag ex, a_exception_str = failure_detail (cfg e) ex,
              a_md5 = None, a_links = [], a_retry = Suc r\<rparr>"
  let ?st1 = "st\<lparr>requests_sent := requests_sent st @ [?kw]\<rparr>"
  let ?st2 = "(print_log ?st1)\<lparr>sleeps := sleeps ?st1 @ [(4 - int (Suc r)) * 2]\<rparr>"
  have hd: "?kw\<lparr>req_method := HEAD\<rparr> = ?kw" by (simp add: request_options_def)
  have kw2: "request_options e ?st2 url (netloc po) = ?kw"
    by (simp add: request_options_def print_log_def)
  have "try_fetch e st url ?kw (netloc po) (Suc r) = Inr (?st1, ?a)"
    using try_fetch_head_fails [of e st ?kw ex "Suc r" ?a url "netloc po"] Suc.prems(1) handle_exception_transient [OF tr]
    by (simp add: hd)
  moreover have "(4 - int (Suc r)) * 2 \<ge> 0" using Suc.prems(2) by simp
  ultimately have step: "get_hyper_links e st url depth (Suc r) = get_hyper_links e ?st2 url depth r"
    using get_hyper_links_step [OF po, of st "Suc r" ?st1 ?a depth] tag_not_digit [OF tr] by simp
  have "\<forall>n. send e n (request_options e ?st2 url (netloc po)) = Inl ex"
    using Suc.prems(1) kw2 by simp
  moreover have "r \<le> 4" using Suc.prems(2) by simp
  ultimately obtain st' where st': "get_hyper_links e ?st2 url depth r = Inr (st', [])"
      "requests_sent st' = requests_sent ?st2 @ replicate (Suc r) (request_options e ?st2 url (netloc po))"
      "sleeps st' = sleeps ?st2 @ map (\<lambda>k. (4 - int k) * 2) (rev [1..<Suc r])"
      "\<exists>urls. categorised_urls st' (failure_tag ex) = Some urls \<and> url \<in> urls"
      "bad_urls_mapping st' url = Some (failure_detail (cfg e) ex)"
      "is_url_visited (url_queue st') url"
    using Suc.IH [of ?st2] by blast
  have "requests_sent st' = requests_sent st @ replicate (Suc (Suc r)) ?kw"
    using st'(2) kw2 by (simp add: print_log_def replicate_append_same)
  moreover have "sleeps st' = sleeps st @ map (\<lambda>k. (4 - int k) * 2) (rev [1..<Suc (Suc r)])"
    using st'(3) by (simp add: print_log_def)
  ultimately show ?case using step st' by simp
qed

text \<open>
  Claim C2. With at most three retries left, \<open>get_hyper_links\<close> retries exactly when
  retries remain and the status is not numeric or exceeds 400, after sleeping
  \<open>(4 - retry_times) * 2\<close> seconds, and otherwise records the outcome. A URL whose every
  request fails with a connection error, a timeout or a chunked-encoding error is requested
  exactly four times, with sleeps of 2, 4 and 6 seconds in between, and ends in the
  categorisation map under its failure tag, with its failure detail in the bad-URL map, and
  visited.
\<close>

theorem retry_policy:
  assumes po: "get_parsed_object_from_url (lib e) url = Inr po"
  shows "(\<forall>st1 a. r \<le> 3
            \<and> try_fetch e st url (request_options e st url (netloc po)) (netloc po) r = Inr (st1, a)
          \<longrightarrow> get_hyper_links e st url depth r =
               (if a_retry a > 0 \<and> (\<not> isdigit (a_status a) \<or> int_of_str (a_status a) > 400)
                then get_hyper_links e
                       ((print_log st1)\<lparr>sleeps := sleeps st1 @ [(4 - int (a_retry a)) * 2]\<rparr>)
                       url depth (a_retry a - 1)
                else Inr (record_outcome (print_log st1) url a, a_links a)))
     \<and> (transient ex \<and> (\<forall>n. send e n (request_options e st url (netloc po)) = Inl ex)
          \<longrightarrow> (\<exists>st'. get_hyper_links e st url depth 3 = Inr (st', [])
                \<and> requests_sent st' =
                    requests_sent st @ replicate 4 (request_options e st url (netloc po))
                \<and> sleeps st' = sleeps st @ [2, 4, 6]
                \<and> (\<exists>urls. categorised_urls st' (failure_tag ex) = Some urls \<and> url \<in> urls)
                \<and> bad_urls_mapping st' url = Some (failure_detail (cfg e) ex)
                \<and> is_url_visited (url_queue st') url))"
proof (intro conjI allI impI)
  fix st1 a
  assume h: "r \<le> 3 \<and> try_fetch e st url (request_options e st url (netloc po)) (netloc po) r = Inr (st1, a)"
  then have "a_retry a \<le> 3" using try_fetch_retry_le by fastforce
  then have "\<not> (4 - int (a_retry a)) * 2 < 0" by simp
  then show "get_hyper_links e st url depth r =
               (if a_retry a > 0 \<and> (\<not> isdigit (a_status a) \<or> int_of_str (a_status a) > 400)
                then get_hyper_links e
                       ((print_log st1)\<lparr>sleeps := sleeps st1 @ [(4 - int (a_retry a)) * 2]\<rparr>)
                       url depth (a_retry a - 1)
                else Inr (record_outcome (print_log st1) url a, a_links a))"
    using get_hyper_links_step [OF po, of st r st1 a depth] h by simp
next
  assume h: "transient ex \<and> (\<forall>n. send e n (request_options e st url (netloc po)) = Inl ex)"
  have "map (\<lambda>k. (4 - int k) * 2) (rev [1..<Suc 3]) = [2, 4, 6]"
    by (simp add: upt_rec)
  moreover have "replicate (Suc 3) (request_options e st url (netloc po))
        = replicate 4 (request_options e st url (netloc po))"
    by (simp add: numeral_eq_Suc)
  ultimately show "\<exists>st'. get_hyper_links e st url depth 3 = Inr (st', [])
                \<and> requests_sent st' =
                    requests_sent st @ replicate 4 (request_options e st url (netloc po))
                \<and> sleeps st' = sleeps st @ [2, 4, 6]
                \<and> (\<exists>urls. categorised_urls st' (failure_tag ex) = Some urls \<and> url \<in> urls)
                \<and> bad_urls_mapping st' url = Some (failure_detail (cfg e) ex)
                \<and> is_url_visited (url_queue st') url"
    using always_failing [OF po, of ex st 3 depth] h by simp
qed

theorem retry_policy_witness:
  "(\<exists>st'. get_hyper_links (example_env refusing) example_start ''http://a.example.com/'' 0 3
            = Inr (st', [])
        \<and> length (requests_sent st') = 4
        \<and> sleeps st' = [2, 4, 6]
        \<and> (\<exists>urls. categorised_urls st' ''ConnectionError'' = Some urls
               \<and> ''http://a.example.com/'' \<in> urls)
        \<and> bad_urls_mapping st' ''http://a.example.com/'' = Some ''Connection refused'')
   \<and> get_hyper_links (example_env refusing) example_start ''http://a.example.com/'' 0 3
      = get_hyper_links (example_env refusing)
          ((print_log (example_start\<lparr>requests_sent :=
               [request_options (example_env refusing) example_start
                  ''http://a.example.com/'' ''a.example.com'']\<rparr>))\<lparr>sleeps := [2]\<rparr>)
          ''http://a.example.com/'' 0 2"
proof -
  have po: "get_parsed_object_from_url (lib (example_env refusing)) ''http://a.example.com/'' =
     Inr \<lparr>scheme = ''http'', netloc = ''a.example.com'', path = ''/'', params = [], query = [], fragment = []\<rparr>"
    using parse_seed by (simp add: example_env_def)
  note rp = retry_policy [OF po, of 3 example_start 0 "ConnectionError ''Connection refused''"]
  have tr: "transient (ConnectionError ''Connection refused'')"
    by (simp add: transient_def)
  have fails: "\<forall>n. send (example_env refusing) n
          (request_options (example_env refusing) example_start ''http://a.example.com/'' ''a.example.com'')
        = Inl (ConnectionError ''Connection refused'')"
    by (simp add: example_env_def refusing_def)
  have tf: "try_fetch (example_env refusing) example_start ''http://a.example.com/''
          (request_options (example_env refusing) example_start ''http://a.example.com/'' ''a.example.com'')
          ''a.example.com'' 3
        = Inr (example_start\<lparr>requests_sent := [request_options (example_env refusing) example_start
                                 ''http://a.example.com/'' ''a.example.com'']\<rparr>,
               \<lparr>a_status = ''ConnectionError'', a_exception_str = ''Connection refused'',
                a_md5 = None, a_links = [], a_retry = 3\<rparr>)"
    by (simp add: try_fetch_def do_request_def example_env_def refusing_def handle_exception_def
        example_start_def request_options_def)
  have nd: "\<not> isdigit ''ConnectionError''"
    by (simp add: isdigit_def digit_chars_def)
  have first: "get_hyper_links (example_env refusing) example_start ''http://a.example.com/'' 0 3
      = get_hyper_links (example_env refusing)
          ((print_log (example_start\<lparr>requests_sent :=
               [request_options (example_env refusing) example_start
                  ''http://a.example.com/'' ''a.example.com'']\<rparr>))\<lparr>sleeps := [2]\<rparr>)
          ''http://a.example.com/'' 0 2"
    using rp tf nd by (simp add: example_start_def)
  have second: "\<exists>st'. get_hyper_links (example_env refusing) example_start ''http://a.example.com/'' 0 3
            = Inr (st', [])
        \<and> length (requests_sent st') = 4
        \<and> sleeps st' = [2, 4, 6]
        \<and> (\<exists>urls. categorised_urls st' ''ConnectionError'' = Some urls
               \<and> ''http://a.example.com/'' \<in> urls)
        \<and> bad_urls_mapping st' ''http://a.example.com/'' = Some ''Connection refused''"
  proof -
    have "cfg (example_env refusing) = example_config" by (simp add: example_env_def)
    moreover have "requests_sent example_start = [] \<and> sleeps example_start = []"
      by (simp add: example_start_def)
    ultimately show ?thesis
      using rp tr fails by (auto simp: failure_tag_def failure_detail_def)
  qed
  show ?thesis using first second by blast
qed

section \<open>A response without a Content-Type header\<close>

lemma str_nat_last: "str_nat n \<noteq> [] \<and> last (str_nat n) \<in> set digit_chars"
proof (cases "n < 10")
  case True
  then have "str_nat n = [digit_chars ! n]" by (subst str_nat.simps) simp
  moreover have "digit_chars ! n \<in> set digit_chars"
    using True by (intro nth_mem) (simp add: digit_chars_def)
  ultimately show ?thesis by simp
next
  case False
  then have "str_nat n = str_nat (n div 10) @ [digit_chars ! (n mod 10)]"
    by (subst str_nat.simps) simp
  moreover have "digit_chars ! (n mod 10) \<in> set digit_chars"
    by (intro nth_mem) (simp add: digit_chars_def)
  ultimately show ?thesis by simp
qed

lemma str_int_last: "str_int i \<noteq> [] \<and> last (str_int i) \<in> set digit_chars"
  using str_nat_last by (simp add: str_int_def)

lemma str_int_not_IGNORE: "str_int i \<noteq> ''IGNORE''"
proof
  assume "str_int i = ''IGNORE''"
  then have "last (str_int i) = CHR ''E''" by simp
  then have "CHR ''E'' \<in> set digit_chars" using str_int_last [of i] by simp
  then show False by (simp add: digit_chars_def)
qed

lemma try_fetch_no_content_type:
  assumes "send e (length (requests_sent st)) (kw\<lparr>req_method := HEAD\<rparr>) = Inr resp"
    and "content_type resp = None"
  shows "try_fetch e st url kw host r =
           Inr (st\<lparr>requests_sent := requests_sent st @ [kw\<lparr>req_method := HEAD\<rparr>]\<rparr>,
                \<lparr>a_status = str_int (status_code resp), a_exception_str = [], a_md5 = None,
                 a_links = [], a_retry = 0\<rparr>)"
  using assms by (simp add: try_fetch_def do_request_def get_url_type_def)

lemma record_outcome_other_key:
  "k \<noteq> a_status a \<Longrightarrow> categorised_urls (record_outcome st url a) k = categorised_urls st k"
  by (simp add: record_outcome_def Let_def save_categorised_url_def)

text \<open>
  Claim C4, as amended. When the HEAD response of a URL carries no Content-Type header,
  \<open>get_hyper_links\<close> sends no further request and does not sleep, whatever retry budget
  it was given, and records the URL in the categorisation map under the decimal text of the
  response's status code; the entry of the key \<open>IGNORE\<close> is left as it was. The URL gets
  an empty entry in the bad-URL map and is marked visited.
\<close>

theorem no_content_type_recorded_under_status:
  assumes po: "get_parsed_object_from_url (lib e) url = Inr po"
    and head: "send e (length (requests_sent st)) (request_options e st url (netloc po)) = Inr resp"
    and nct: "content_type resp = None"
  shows "\<exists>st'. get_hyper_links e st url depth r = Inr (st', [])
           \<and> requests_sent st' = requests_sent st @ [request_options e st url (netloc po)]
           \<and> sleeps st' = sleeps st
           \<and> (\<exists>urls. categorised_urls st' (str_int (status_code resp)) = Some urls \<and> url \<in> urls)
           \<and> categorised_urls st' ''IGNORE'' = categorised_urls st ''IGNORE''
           \<and> bad_urls_mapping st' url = Some []
           \<and> is_url_visited (url_queue st') url"
proof -
  let ?kw = "request_options e st url (netloc po)"
  let ?a = "\<lparr>a_status = str_int (status_code resp), a_exception_str = [], a_md5 = None,
              a_links = [], a_retry = 0\<rparr>"
  let ?st1 = "st\<lparr>requests_sent := requests_sent st @ [?kw]\<rparr>"
  let ?st' = "record_outcome (print_log ?st1) url ?a"
  have hd: "?kw\<lparr>req_method := HEAD\<rparr> = ?kw" by (simp add: request_options_def)
  have "try_fetch e st url ?kw (netloc po) r = Inr (?st1, ?a)"
    using try_fetch_no_content_type [of e st ?kw resp url "netloc po" r] head nct by (simp add: hd)
  then have run: "get_hyper_links e st url depth r = Inr (?st', [])"
    using get_hyper_links_step [OF po] by simp
  have rec: "bad_urls_mapping ?st' url = Some []
     \<and> (\<exists>urls. categorised_urls ?st' (str_int (status_code resp)) = Some urls \<and> url \<in> urls)
     \<and> is_url_visited (url_queue ?st') url
     \<and> requests_sent ?st' = requests_sent (print_log ?st1)
     \<and> sleeps ?st' = sleeps (print_log ?st1)"
    using record_outcome_zero [of ?a "print_log ?st1" url] by simp
  have "categorised_urls ?st' ''IGNORE'' = categorised_urls (print_log ?st1) ''IGNORE''"
    using record_outcome_other_key [of "''IGNORE''" ?a "print_log ?st1" url] str_int_not_IGNORE [of "status_code resp"]
    by simp
  then have ign: "categorised_urls ?st' ''IGNORE'' = categorised_urls st ''IGNORE''"
    by (simp add: print_log_def)
  show ?thesis using run rec ign by (simp add: print_log_def)
qed

theorem no_content_type_recorded_under_status_witness:
  "\<exists>st'. get_hyper_links (example_env (answering 404 None)) example_start
            ''http://a.example.com/'' 0 3 = Inr (st', [])
         \<and> length (requests_sent st') = 1
         \<and> sleeps st' = []
         \<and> (\<exists>urls. categorised_urls st' ''404'' = Some urls \<and> ''http://a.example.com/'' \<in> urls)
         \<and> categorised_urls st' ''IGNORE'' = None
         \<and> bad_urls_mapping st' ''http://a.example.com/'' = Some []"
proof -
  have po: "get_parsed_object_from_url (lib (example_env (answering 404 None))) ''http://a.example.com/'' =
     Inr \<lparr>scheme = ''http'', netloc = ''a.example.com'', path = ''/'', params = [], query = [], fragment = []\<rparr>"
    using parse_seed by (simp add: example_env_def)
  have head: "send (example_env (answering 404 None)) (length (requests_sent example_start))
      (request_options (example_env (answering 404 None)) example_start ''http://a.example.com/''
         (netloc \<lparr>scheme = ''http'', netloc = ''a.example.com'', path = ''/'', params = [], query = [], fragment = []\<rparr>))
      = Inr \<lparr>status_code = 404, content_type = None, resp_url = ''http://a.example.com/'', content = []\<rparr>"
    by (simp add: example_env_def answering_def request_options_def)
  have s404: "str_int 404 = ''404''" by code_simp
  have start: "requests_sent example_start = [] \<and> sleeps example_start = []
      \<and> categorised_urls example_start ''IGNORE'' = None"
    by (simp add: example_start_def)
  show ?thesis
    using no_content_type_recorded_under_status [OF po head, of 0 3] s404 start by auto
qed

text \<open>
  Claim C4 as stated fails: a URL answered with status 200 and no Content-Type header is
  filed under \<open>200\<close>, and nothing is filed under \<open>IGNORE\<close>.
\<close>

theorem no_content_type_counterexample:
  "observed ''http://a.example.com/'' [''200'', ''IGNORE'']
     (get_hyper_links (example_env (answering 200 None)) example_start ''http://a.example.com/'' 0 3)
   = Inr (1, [], Some [], [(''200'', True), (''IGNORE'', False)])"
  by code_simp

section \<open>Retrying a completed request\<close>









section \<open>The bad-URL map\<close>

text \<open>
  Claim C7 on the code. A URL whose first three requests are refused and whose fourth is
  answered with status 200 ends filed under \<open>200\<close> and has an (empty) entry in the
  bad-URL map: the entry is written whenever the retry budget is zero.
\<close>

theorem bad_url_entry_for_success:
  "observed ''http://a.example.com/'' [''200'', ''ConnectionError'']
     (get_hyper_links (example_env recovering) example_start ''http://a.example.com/'' 0 3)
   = Inr (4, [2, 4, 6], Some [], [(''200'', True), (''ConnectionError'', False)])"
  by code_simp

section \<open>The depth bound of the depth-first traversal\<close>

text \<open>
  Claim C6 on the code. With \<open>max_depth = 0\<close>, the crawl of the seed page requests the
  seed only and leaves \<open>/b\<close>, found at depth 1, queued and unvisited; the \<open>while\<close> loop
  of \<open>run_dfs\<close> then takes \<open>/b\<close> from the queue and crawls it at depth 0, so at the end
  of the run \<open>/b\<close> has been requested and is visited.
\<close>

theorem dfs_fetches_past_max_depth:
  "dfs_observed ''http://a.example.com/b''
     (Some (crawler (example_env two_pages) 0
        (example_start\<lparr>url_queue := snd (get_one_unvisited_url (url_queue example_start))\<rparr>)
        ''http://a.example.com/'' 0))
   = Some ([(HEAD, ''http://a.example.com/''), (GET, ''http://a.example.com/'')],
           False, [''http://a.example.com/b''])
   \<and> dfs_observed ''http://a.example.com/b'' (run_dfs 2 (example_env two_pages) 0 example_start)
   = Some ([(HEAD, ''http://a.example.com/''), (GET, ''http://a.example.com/''),
            (HEAD, ''http://a.example.com/b''), (GET, ''http://a.example.com/b'')],
           True, [])"
proof (intro conjI)
  show "dfs_observed ''http://a.example.com/b''
     (Some (crawler (example_env two_pages) 0
        (example_start\<lparr>url_queue := snd (get_one_unvisited_url (url_queue example_start))\<rparr>)
        ''http://a.example.com/'' 0))
   = Some ([(HEAD, ''http://a.example.com/''), (GET, ''http://a.example.com/'')],
           False, [''http://a.example.com/b''])"
    by code_simp
  show "dfs_observed ''http://a.example.com/b'' (run_dfs 2 (example_env two_pages) 0 example_start)
   = Some ([(HEAD, ''http://a.example.com/''), (GET, ''http://a.example.com/''),
            (HEAD, ''http://a.example.com/b''), (GET, ''http://a.example.com/b'')],
           True, [])"
    by code_simp
qed

section \<open>Parent-relative links\<close>

lemma split_on_nonempty: "split_on c s \<noteq> []"
  by (induction s) (auto split: list.splits)

lemma length_split_on: "length (split_on c s) = Suc (length (filter (\<lambda>x. x = c) s))"
  by (induction s) (auto split: list.splits)

lemma butlast_split_on_empty: "butlast (split_on c s) = [] \<longleftrightarrow> c \<notin> set s"
proof -
  have "butlast (split_on c s) = [] \<longleftrightarrow> length (split_on c s) \<le> 1"
    by (cases "split_on c s" rule: rev_cases) auto
  also have "\<dots> \<longleftrightarrow> filter (\<lambda>x. x = c) s = []"
    by (simp add: length_split_on)
  also have "\<dots> \<longleftrightarrow> c \<notin> set s"
    by (auto simp: filter_empty_conv)
  finally show ?thesis .
qed

lemma length_last_split_on: "length (last (split_on c s)) \<le> length s"
proof (induction s)
  case Nil
  then show ?case by simp
next
  case (Cons x xs)
  then show ?case
    using split_on_nonempty [of c xs]
    by (cases "split_on c xs") (auto split: if_splits)
qed

lemma last_split_on_parent:
  "last (split_on (CHR ''/'') (''../'' @ t)) = last (split_on (CHR ''/'') t)"
  using split_on_nonempty [of "CHR ''/''" t] by simp

lemma cleaned_link_parent:
  assumes "startswith url ''../''"
  shows "\<exists>w. cleaned_link url = ''../'' @ w \<and> remove_char (CHR '' '') url = ''../'' @ remove_char (CHR '' '') (drop 3 url)"
proof -
  obtain t where t: "url = ''../'' @ t" using assms startswith_iff by blast
  have r: "remove_char (CHR '' '') url = ''../'' @ remove_char (CHR '' '') t"
    by (simp add: t remove_char_def)
  have "re_sub_size (''../'' @ remove_char (CHR '' '') t) = ''../'' @ re_sub_size (remove_char (CHR '' '') t)"
    by simp
  then show ?thesis using r t by (auto simp: cleaned_link_def Let_def)
qed

lemma urlsplit_relative:
  assumes "split_scheme (filter (\<lambda>c. \<not> is_unsafe_byte c) (dropWhile is_c0_or_space u)) = ([], v)"
    and "take 2 v \<noteq> ''//''"
  shows "urlsplit l u =
           Inr \<lparr>scheme = [], netloc = [],
                path = fst (split_at (CHR ''?'') (fst (split_at (CHR ''#'') v))),
                params = [],
                query = snd (split_at (CHR ''?'') (fst (split_at (CHR ''#'') v))),
                fragment = snd (split_at (CHR ''#'') v)\<rparr>"
  using assms by (simp add: urlsplit_def Let_def case_prod_beta split_at_def)

lemma split_at_parent:
  "c \<noteq> CHR ''.'' \<Longrightarrow> c \<noteq> CHR ''/'' \<Longrightarrow> \<exists>x. fst (split_at c (''../'' @ s)) = ''../'' @ x"
  by (simp add: split_at_def split_first_def)

lemma urlsplit_parent:
  "\<exists>pth q f. urlsplit l (''../'' @ w) =
      Inr \<lparr>scheme = [], netloc = [], path = ''../'' @ pth, params = [], query = q, fragment = f\<rparr>"
proof -
  let ?w2 = "filter (\<lambda>c. \<not> is_unsafe_byte c) w"
  let ?U = "''../'' @ ?w2"
  have u1: "dropWhile is_c0_or_space (''../'' @ w) = ''../'' @ w"
    by (simp add: is_c0_or_space_def)
  have u2: "filter (\<lambda>c. \<not> is_unsafe_byte c) (''../'' @ w) = ?U"
    by (simp add: is_unsafe_byte_def)
  have u3: "split_scheme ?U = ([], ?U)"
    by (simp add: split_scheme_def Let_def is_ascii_alpha_def ascii_lowercase_def ascii_uppercase_def)
  have u4: "take 2 ?U \<noteq> ''//''" by simp
  obtain x5 where x5: "fst (split_at (CHR ''#'') ?U) = ''../'' @ x5"
    using split_at_parent [of "CHR ''#''" ?w2] by auto
  obtain x6 where x6: "fst (split_at (CHR ''?'') (''../'' @ x5)) = ''../'' @ x6"
    using split_at_parent [of "CHR ''?''" x5] by auto
  have "split_scheme (filter (\<lambda>c. \<not> is_unsafe_byte c) (dropWhile is_c0_or_space (''../'' @ w))) = ([], ?U)"
    unfolding u1 u2 using u3 .
  from urlsplit_relative [OF this u4, of l] show ?thesis
    unfolding x5 x6 by blast
qed

lemma splitparams_parent:
  "\<exists>pth'. fst (splitparams (''../'' @ pth)) = ''../'' @ pth'"
proof -
  let ?url = "''../'' @ pth"
  let ?seg = "last (split_on (CHR ''/'') ?url)"
  have seg: "?seg = last (split_on (CHR ''/'') pth)" using last_split_on_parent .
  have "length ?seg \<le> length pth" using seg length_last_split_on [of "CHR ''/''" pth] by simp
  then have "take (length ?url - length ?seg) ?url = ''../'' @ take (length pth - length ?seg) pth"
    by (simp add: Suc_diff_le)
  then show ?thesis
    by (auto simp: splitparams_def Let_def simp del: split_on.simps)
qed

lemma urlparse_parent:
  "\<exists>parsed. urlparse l (''../'' @ w) = Inr parsed
      \<and> scheme parsed = [] \<and> netloc parsed = [] \<and> startswith (path parsed) ''../''"
proof -
  obtain pth q f where s: "urlsplit l (''../'' @ w) =
      Inr \<lparr>scheme = [], netloc = [], path = ''../'' @ pth, params = [], query = q, fragment = f\<rparr>"
    using urlsplit_parent by blast
  obtain pth' where p: "fst (splitparams (''../'' @ pth)) = ''../'' @ pth'"
    using splitparams_parent by blast
  show ?thesis
    using s p by (auto simp: urlparse_def startswith_def)
qed


lemma lstrip_parent_chars:
  "lstrip ''../'' s = dropWhile (\<lambda>c. c = CHR ''.'' \<or> c = CHR ''/'') s"
proof -
  have "(\<lambda>c. c \<in> set ''../'') = (\<lambda>c. c = CHR ''.'' \<or> c = CHR ''/'')" by auto
  then show ?thesis by (simp add: lstrip_def)
qed

lemma make_url_parent:
  assumes o: "scheme parsed = []" "netloc parsed = []" "startswith (path parsed) ''../''"
    and ref: "get_parsed_object_from_url l referer_url = Inr referer"
  shows "make_url_by_referer l (parsed\<lparr>fragment := []\<rparr>) referer_url =
     (if CHR ''/'' \<in> set (path referer)
      then Inr \<lparr>scheme = scheme referer, netloc = netloc referer,
                path = join (CHR ''/'')
                  (butlast (butlast (split_on (CHR ''/'') (path referer)))
                   @ [dropWhile (\<lambda>c. c = CHR ''.'' \<or> c = CHR ''/'') (path parsed)]),
                params = params parsed, query = query parsed, fragment = []\<rparr>
      else Inl IndexError)"
proof -
  let ?popped = "butlast (split_on (CHR ''/'') (path referer))"
  obtain t where t: "path parsed = ''../'' @ t" using o(3) startswith_iff by blast
  have ns: "\<not> startswith (path parsed) ''/''"
    unfolding t by (simp add: startswith_def)
  have upd: "?popped \<noteq> [] \<Longrightarrow> ?popped[length ?popped - 1 := x] = butlast ?popped @ [x]" for x
    by (cases ?popped rule: rev_cases) (auto simp: list_update_append)
  show ?thesis
  proof (cases "CHR ''/'' \<in> set (path referer)")
    case True
    then have ne: "?popped \<noteq> []" using butlast_split_on_empty by blast
    show ?thesis
      using o ns ref True ne upd [OF ne]
      by (cases parsed) (simp add: make_url_by_referer_def Let_def lstrip_parent_chars)
  next
    case False
    then have "?popped = []" using butlast_split_on_empty by blast
    then show ?thesis
      using o ns ref False by (simp add: make_url_by_referer_def Let_def)
  qed
qed

text \<open>
  Claim C10. For every raw link that begins with \<open>../\<close>, parsing the cleaned link
  succeeds with an empty scheme and authority and a path that begins with \<open>../\<close>, and
  the resolver takes the segments of the referer's path, pops one (the last), and puts in
  the place of the new last segment the link's path without all its leading \<open>.\<close> and
  \<open>/\<close> characters, however many \<open>../\<close> the link starts with; when the referer's path
  has a single segment (no \<open>/\<close>), the assignment after the pop raises \<open>IndexError\<close>.
  So against \<open>https://store.example.com/product/osmo\<close> the links \<open>../x\<close>,
  \<open>../../x\<close> and \<open>../..x\<close> all resolve to \<open>https://store.example.com/x\<close>.
\<close>

theorem parent_relative_resolution:
  assumes link: "startswith url ''../''"
    and ref: "get_parsed_object_from_url l referer_url = Inr referer"
  shows "(\<exists>parsed. urlparse l (cleaned_link url) = Inr parsed
            \<and> scheme parsed = [] \<and> netloc parsed = [] \<and> startswith (path parsed) ''../''
            \<and> parse_url l url referer_url =
                (if CHR ''/'' \<in> set (path referer)
                 then Inr (Some (geturl l
                        \<lparr>scheme = scheme referer, netloc = netloc referer,
                         path = join (CHR ''/'')
                           (butlast (butlast (split_on (CHR ''/'') (path referer)))
                            @ [dropWhile (\<lambda>c. c = CHR ''.'' \<or> c = CHR ''/'') (path parsed)]),
                         params = params parsed, query = query parsed, fragment = []\<rparr>))
                 else Inl IndexError))
     \<and> parse_url l ''../x'' ''https://store.example.com/product/osmo''
         = Inr (Some ''https://store.example.com/x'')
     \<and> parse_url l ''../../x'' ''https://store.example.com/product/osmo''
         = Inr (Some ''https://store.example.com/x'')
     \<and> parse_url l ''../..x'' ''https://store.example.com/product/osmo''
         = Inr (Some ''https://store.example.com/x'')"
proof (intro conjI)
  obtain w where w: "cleaned_link url = ''../'' @ w"
    using cleaned_link_parent [OF link] by blast
  obtain parsed where parsed: "urlparse l (''../'' @ w) = Inr parsed"
      "scheme parsed = []" "netloc parsed = []" "startswith (path parsed) ''../''"
    using urlparse_parent by blast
  let ?u = "remove_char (CHR '' '') url"
  have u: "?u = ''../'' @ remove_char (CHR '' '') (drop 3 url)"
    using cleaned_link_parent [OF link] by blast
  have nd: "?u \<noteq> [] \<and> \<not> startswith ?u ''#'' \<and> \<not> startswith ?u ''javascript''
     \<and> \<not> startswith ?u ''mailto'' \<and> \<not> startswith ?u ''tel:''
     \<and> \<not> startswith ?u escaped_quote \<and> \<not> startswith ?u ''data:''"
    unfolding u by (simp add: startswith_def escaped_quote_def)
  have cl: "(if str_contains ''@!'' ?u then re_sub_size ?u else ?u) = ''../'' @ w"
    using w by (simp add: cleaned_link_def Let_def)
  have "parse_url l url referer_url =
          (case make_url_by_referer l (parsed\<lparr>fragment := []\<rparr>) referer_url of
             Inl e \<Rightarrow> Inl e
           | Inr resolved \<Rightarrow> Inr (Some (geturl l resolved)))"
    unfolding parse_url_def Let_def cl
    using nd parsed(1) by (simp add: get_parsed_object_from_url_def)
  then have "parse_url l url referer_url =
                (if CHR ''/'' \<in> set (path referer)
                 then Inr (Some (geturl l
                        \<lparr>scheme = scheme referer, netloc = netloc referer,
                         path = join (CHR ''/'')
                           (butlast (butlast (split_on (CHR ''/'') (path referer)))
                            @ [dropWhile (\<lambda>c. c = CHR ''.'' \<or> c = CHR ''/'') (path parsed)]),
                         params = params parsed, query = query parsed, fragment = []\<rparr>))
                 else Inl IndexError)"
    using make_url_parent [OF parsed(2,3,4) ref] by simp
  then show "\<exists>parsed. urlparse l (cleaned_link url) = Inr parsed
            \<and> scheme parsed = [] \<and> netloc parsed = [] \<and> startswith (path parsed) ''../''
            \<and> parse_url l url referer_url =
                (if CHR ''/'' \<in> set (path referer)
                 then Inr (Some (geturl l
                        \<lparr>scheme = scheme referer, netloc = netloc referer,
                         path = join (CHR ''/'')
                           (butlast (butlast (split_on (CHR ''/'') (path referer)))
                            @ [dropWhile (\<lambda>c. c = CHR ''.'' \<or> c = CHR ''/'') (path parsed)]),
                         params = params parsed, query = query parsed, fragment = []\<rparr>))
                 else Inl IndexError)"
    using parsed w by auto
next
  show "parse_url l ''../x'' ''https://store.example.com/product/osmo''
         = Inr (Some ''https://store.example.com/x'')"
    by code_simp
next
  show "parse_url l ''../../x'' ''https://store.example.com/product/osmo''
         = Inr (Some ''https://store.example.com/x'')"
    by code_simp
next
  show "parse_url l ''../..x'' ''https://store.example.com/product/osmo''
         = Inr (Some ''https://store.example.com/x'')"
    by code_simp
qed


theorem parent_relative_resolution_witness:
  "startswith ''../../x'' ''../''
   \<and> get_parsed_object_from_url strict_lib ''https://store.example.com/product/osmo''
       = Inr \<lparr>scheme = ''https'', netloc = ''store.example.com'', path = ''/product/osmo'',
               params = [], query = [], fragment = []\<rparr>
   \<and> parse_url strict_lib ''../../x'' ''https://store.example.com/product/osmo''
       = Inr (Some ''https://store.example.com/x'')
   \<and> parse_url strict_lib ''../x'' ''https://store.example.com'' = Inl IndexError"
proof -
  have link: "startswith ''../../x'' ''../''" by code_simp
  have link2: "startswith ''../x'' ''../''" by code_simp
  have ref: "get_parsed_object_from_url strict_lib ''https://store.example.com/product/osmo''
       = Inr \<lparr>scheme = ''https'', netloc = ''store.example.com'', path = ''/product/osmo'',
               params = [], query = [], fragment = []\<rparr>"
    by code_simp
  have ref2: "get_parsed_object_from_url strict_lib ''https://store.example.com''
       = Inr \<lparr>scheme = ''https'', netloc = ''store.example.com'', path = [],
               params = [], query = [], fragment = []\<rparr>"
    by code_simp
  have a: "parse_url strict_lib ''../../x'' ''https://store.example.com/product/osmo''
       = Inr (Some ''https://store.example.com/x'')"
    using parent_relative_resolution [OF link ref] by blast
  have b: "parse_url strict_lib ''../x'' ''https://store.example.com'' = Inl IndexError"
    using parent_relative_resolution [OF link2 ref2] by auto
  show ?thesis using link ref a b by blast
qed

section \<open>Resolving an absolute URL\<close>





























text \<open>The two releases of \<open>urlunsplit\<close> differ on an empty authority followed by a path
  that starts with two slashes, and only there.\<close>

lemma urlunsplit_releases:
  "parse_url (strict_lib\<lparr>double_slash_kept := True\<rparr>) ''http:////x'' ''http://b.com/''
     = Inr (Some ''http:////x'')
   \<and> parse_url (strict_lib\<lparr>double_slash_kept := False\<rparr>) ''http:////x'' ''http://b.com/''
     = Inr (Some ''http://x'')"
proof
  show "parse_url (strict_lib\<lparr>double_slash_kept := True\<rparr>) ''http:////x'' ''http://b.com/''
     = Inr (Some ''http:////x'')"
    by code_simp
  show "parse_url (strict_lib\<lparr>double_slash_kept := False\<rparr>) ''http:////x'' ''http://b.com/''
     = Inr (Some ''http://x'')"
    by code_simp
qed




end
